theory Spec2Isabelle
  imports Main "HOL-Library.Word"
begin

unbundle bit_operations_syntax

section \<open>The digest of \<open>node:crypto\<close>\<close>

text \<open>
  The constructor of \<open>LearningStack\<close> names its bucket with
  \<open>crypto.createHash('md5')\<close>, \<open>hash.update\<close> and \<open>hash.digest('hex')\<close>.
  Modelled from the spec: \<open>node:crypto\<close> is a module of the runtime and not a file of the
  repository; the spec calls it "a fixed, well-known digest algorithm" with the digest
  encoded "as lowercase hexadecimal". The algorithm the source names is MD5, given here as
  RFC 1321 defines it: bytes are \<open>8 word\<close>, the four registers are \<open>32 word\<close>, and
  addition wraps.
\<close>

type_synonym byte = "8 word"
type_synonym u32 = "32 word"

definition utf8 :: "string \<Rightarrow> byte list" where
  "utf8 s = map of_char s"

definition le_bytes :: "nat \<Rightarrow> 'a::len word \<Rightarrow> byte list" where
  "le_bytes k w = map (\<lambda>i. ucast (drop_bit (8 * i) w)) [0..<k]"

definition le_word :: "byte list \<Rightarrow> u32" where
  "le_word bs = foldr (\<lambda>b acc. ucast b OR push_bit 8 acc) bs 0"

function chunks :: "nat \<Rightarrow> 'a list \<Rightarrow> 'a list list" where
  "chunks n xs = (if n = 0 \<or> xs = [] then [] else take n xs # chunks n (drop n xs))"
  by pat_completeness auto
termination
  by (relation "measure (\<lambda>(n, xs). length xs)") auto

declare chunks.simps [simp del]

definition md5_s :: "nat list" where
  "md5_s = [7, 12, 17, 22, 7, 12, 17, 22, 7, 12, 17, 22, 7, 12, 17, 22,
            5, 9, 14, 20, 5, 9, 14, 20, 5, 9, 14, 20, 5, 9, 14, 20,
            4, 11, 16, 23, 4, 11, 16, 23, 4, 11, 16, 23, 4, 11, 16, 23,
            6, 10, 15, 21, 6, 10, 15, 21, 6, 10, 15, 21, 6, 10, 15, 21]"

definition md5_K :: "u32 list" where
  "md5_K = [0xd76aa478, 0xe8c7b756, 0x242070db, 0xc1bdceee,
            0xf57c0faf, 0x4787c62a, 0xa8304613, 0xfd469501,
            0x698098d8, 0x8b44f7af, 0xffff5bb1, 0x895cd7be,
            0x6b901122, 0xfd987193, 0xa679438e, 0x49b40821,
            0xf61e2562, 0xc040b340, 0x265e5a51, 0xe9b6c7aa,
            0xd62f105d, 0x02441453, 0xd8a1e681, 0xe7d3fbc8,
            0x21e1cde6, 0xc33707d6, 0xf4d50d87, 0x455a14ed,
            0xa9e3e905, 0xfcefa3f8, 0x676f02d9, 0x8d2a4c8a,
            0xfffa3942, 0x8771f681, 0x6d9d6122, 0xfde5380c,
            0xa4beea44, 0x4bdecfa9, 0xf6bb4b60, 0xbebfbc70,
            0x289b7ec6, 0xeaa127fa, 0xd4ef3085, 0x04881d05,
            0xd9d4d039, 0xe6db99e5, 0x1fa27cf8, 0xc4ac5665,
            0xf4292244, 0x432aff97, 0xab9423a7, 0xfc93a039,
            0x655b59c3, 0x8f0ccc92, 0xffeff47d, 0x85845dd1,
            0x6fa87e4f, 0xfe2ce6e0, 0xa3014314, 0x4e0811a1,
            0xf7537e82, 0xbd3af235, 0x2ad7d2bb, 0xeb86d391]"

definition rotl :: "u32 \<Rightarrow> nat \<Rightarrow> u32" where
  "rotl x c = push_bit c x OR drop_bit (32 - c) x"

type_synonym md5_state = "u32 \<times> u32 \<times> u32 \<times> u32"

definition md5_step :: "u32 list \<Rightarrow> md5_state \<Rightarrow> nat \<Rightarrow> md5_state" where
  "md5_step M st i =
     (let (A, B, C, D) = st;
          (F, g) =
        (if i < 16 then ((B AND C) OR (NOT B AND D), i)
         else if i < 32 then ((D AND B) OR (NOT D AND C), (5 * i + 1) mod 16)
         else if i < 48 then (B XOR C XOR D, (3 * i + 5) mod 16)
         else (C XOR (B OR NOT D), (7 * i) mod 16));
        F' = F + A + md5_K ! i + M ! g
      in (D, B + rotl F' (md5_s ! i), B, C))"

definition md5_block :: "md5_state \<Rightarrow> byte list \<Rightarrow> md5_state" where
  "md5_block st blk =
     (let M = map le_word (chunks 4 blk);
          (A, B, C, D) = foldl (md5_step M) st [0..<64];
          (a0, b0, c0, d0) = st
      in (a0 + A, b0 + B, c0 + C, d0 + D))"

definition md5_pad :: "byte list \<Rightarrow> byte list" where
  "md5_pad m = m @ [0x80] @ replicate ((119 - length m mod 64) mod 64) 0
                 @ le_bytes 8 (of_nat (8 * length m) :: 64 word)"

definition md5_init :: md5_state where
  "md5_init = (0x67452301, 0xefcdab89, 0x98badcfe, 0x10325476)"

definition md5 :: "byte list \<Rightarrow> byte list" where
  "md5 m =
     (let (a, b, c, d) = foldl md5_block md5_init (chunks 64 (md5_pad m))
      in concat (map (\<lambda>w. le_bytes 4 w) [a, b, c, d]))"

definition hex_digit :: "nat \<Rightarrow> char" where
  "hex_digit n = ''0123456789abcdef'' ! n"

definition hex :: "byte list \<Rightarrow> string" where
  "hex bs = concat (map (\<lambda>b. [hex_digit (unat (drop_bit 4 b)), hex_digit (unat (b AND 15))]) bs)"
text \<open>
  The \<open>Hash\<close> object: \<open>createHash\<close> starts with no input, \<open>update\<close> appends the
  UTF-8 bytes of a string, \<open>digest\<close> hashes what was collected and encodes it.
\<close>

datatype HashAlgorithm = MD5

datatype Encoding = Hex

record Hash =
  algorithm :: HashAlgorithm
  collected :: "byte list"

definition createHash :: "HashAlgorithm \<Rightarrow> Hash" where
  "createHash alg = \<lparr>algorithm = alg, collected = []\<rparr>"

definition update :: "Hash \<Rightarrow> string \<Rightarrow> Hash" where
  "update h s = h\<lparr>collected := collected h @ utf8 s\<rparr>"

definition digest :: "Hash \<Rightarrow> Encoding \<Rightarrow> string" where
  "digest h enc = (case algorithm h of MD5 \<Rightarrow> (case enc of Hex \<Rightarrow> hex (md5 (collected h))))"

section \<open>The descriptors of \<open>aws-cdk-lib\<close>\<close>

text \<open>
  Modelled from the spec: the classes of \<open>aws-cdk-lib\<close> (\<open>Stack\<close>, \<open>Vpc\<close>,
  \<open>SecurityGroup\<close>, \<open>Bucket\<close>, \<open>BastionHostLinux\<close>, \<open>Role\<close>) are a dependency and
  not files of the repository. The spec describes a construct as "an in-memory declarative
  representation of a cloud resource" that "takes its parent context explicitly and
  registers itself into it". So a construct is a record of the properties it was given, the
  stack is the store of its children in the order they registered, and an object reference
  is the position of the object in that store. What the framework does with the tree
  afterwards (validation, synthesis, deployment) is outside this model.

  Record fields are global names in Isabelle, so the two \<open>vpc\<close> properties are
  \<open>sg_vpc\<close> and \<open>bh_vpc\<close>, and the subnet's \<open>name\<close> is \<open>subnet_name\<close>.
\<close>

type_synonym ref = nat

subsection \<open>Network\<close>

datatype SubnetType = PUBLIC | PRIVATE_WITH_EGRESS | PRIVATE_ISOLATED

record SubnetConfiguration =
  cidrMask :: nat
  subnet_name :: string
  subnetType :: SubnetType
  mapPublicIpOnLaunch :: bool

datatype IpAddresses = cidr string

record Vpc =
  ipAddresses :: IpAddresses
  maxAzs :: nat
  subnetConfiguration :: "SubnetConfiguration list"

subsection \<open>Security groups\<close>

datatype Protocol = TCP | UDP | ICMP

record Port =
  protocol :: Protocol
  fromPort :: nat
  toPort :: nat

definition tcp :: "nat \<Rightarrow> Port" where
  "tcp p = \<lparr>protocol = TCP, fromPort = p, toPort = p\<rparr>"

text \<open>
  A peer of a rule is either a security group object, held by reference, or an address
  range written as a string.
\<close>

datatype IPeer = SecurityGroupPeer ref | ipv4 string

record IngressRule =
  peer :: IPeer
  connection :: Port

record SecurityGroupProps =
  securityGroupName :: string
  sg_vpc :: ref

record SecurityGroup = SecurityGroupProps +
  ingressRules :: "IngressRule list"

subsection \<open>Bucket\<close>

datatype RemovalPolicy = DESTROY | RETAIN | SNAPSHOT

record Bucket =
  bucketName :: string
  removalPolicy :: RemovalPolicy
  autoDeleteObjects :: bool

subsection \<open>Bastion host\<close>

text \<open>
  The two enumerations list the members the source uses and a few of their neighbours; the
  library has many more. Their string values are the library's.
\<close>

datatype InstanceClass = T3 | M5 | C5 | C6I | C7I

datatype InstanceSize = MICRO | SMALL | MEDIUM | LARGE | XLARGE | XLARGE2 | XLARGE4

record InstanceType =
  instanceClass :: InstanceClass
  instanceSize :: InstanceSize

definition InstanceType_of :: "InstanceClass \<Rightarrow> InstanceSize \<Rightarrow> InstanceType" where
  "InstanceType_of c z = \<lparr>instanceClass = c, instanceSize = z\<rparr>"

fun InstanceClass_value :: "InstanceClass \<Rightarrow> string" where
  "InstanceClass_value T3 = ''t3''"
| "InstanceClass_value M5 = ''m5''"
| "InstanceClass_value C5 = ''c5''"
| "InstanceClass_value C6I = ''c6i''"
| "InstanceClass_value C7I = ''c7i''"

fun InstanceSize_value :: "InstanceSize \<Rightarrow> string" where
  "InstanceSize_value MICRO = ''micro''"
| "InstanceSize_value SMALL = ''small''"
| "InstanceSize_value MEDIUM = ''medium''"
| "InstanceSize_value LARGE = ''large''"
| "InstanceSize_value XLARGE = ''xlarge''"
| "InstanceSize_value XLARGE2 = ''2xlarge''"
| "InstanceSize_value XLARGE4 = ''4xlarge''"

definition toString :: "InstanceType \<Rightarrow> string" where
  "toString t = InstanceClass_value (instanceClass t) @ ''.'' @ InstanceSize_value (instanceSize t)"

datatype BlockDeviceVolume = ebs nat | ephemeral nat

record BlockDevice =
  deviceName :: string
  volume :: BlockDeviceVolume

datatype IManagedPolicy = fromAwsManagedPolicyName string | fromManagedPolicyArn string

record Role =
  managedPolicies :: "IManagedPolicy list"

record BastionHostLinuxProps =
  bh_vpc :: ref
  instanceName :: string
  instanceType :: InstanceType
  securityGroup :: ref
  blockDevices :: "BlockDevice list"

record BastionHostLinux = BastionHostLinuxProps +
  role :: Role

subsection \<open>The construct tree\<close>

datatype Resource =
    VpcResource Vpc
  | SecurityGroupResource SecurityGroup
  | BucketResource Bucket
  | BastionHostLinuxResource BastionHostLinux

record Construct =
  node_id :: string
  resource :: Resource

text \<open>
  The scope and the stack properties are "entirely consumed by the external framework, not
  interpreted here": they are kept as given, of any type.
\<close>

record ('scope, 'props) Stack =
  scope :: 'scope
  stack_id :: string
  props :: "'props option"
  children :: "Construct list"

definition super :: "'scope \<Rightarrow> string \<Rightarrow> 'props option \<Rightarrow> ('scope, 'props) Stack" where
  "super sc i p = \<lparr>scope = sc, stack_id = i, props = p, children = []\<rparr>"

definition lookup :: "('scope, 'props) Stack \<Rightarrow> ref \<Rightarrow> Construct option" where
  "lookup s r = (if r < length (children s) then Some (children s ! r) else None)"

text \<open>\<open>new C(this, id, props)\<close>: the construct registers as the last child; its reference is returned.\<close>

definition register :: "string \<Rightarrow> Resource \<Rightarrow> ('scope, 'props) Stack \<Rightarrow> ref \<times> ('scope, 'props) Stack" where
  "register i r s = (length (children s), s\<lparr>children := children s @ [\<lparr>node_id = i, resource = r\<rparr>]\<rparr>)"

definition new_Vpc :: "string \<Rightarrow> Vpc \<Rightarrow> ('scope, 'props) Stack \<Rightarrow> ref \<times> ('scope, 'props) Stack" where
  "new_Vpc i p s = register i (VpcResource p) s"

text \<open>A security group is "created with no ingress rules".\<close>

definition new_SecurityGroup :: "string \<Rightarrow> SecurityGroupProps \<Rightarrow> ('scope, 'props) Stack \<Rightarrow> ref \<times> ('scope, 'props) Stack" where
  "new_SecurityGroup i p s =
     register i (SecurityGroupResource
       \<lparr>securityGroupName = securityGroupName p, sg_vpc = sg_vpc p, ingressRules = []\<rparr>) s"

definition new_Bucket :: "string \<Rightarrow> Bucket \<Rightarrow> ('scope, 'props) Stack \<Rightarrow> ref \<times> ('scope, 'props) Stack" where
  "new_Bucket i p s = register i (BucketResource p) s"

text \<open>The host owns a role, which starts with no managed policy.\<close>

definition new_BastionHostLinux :: "string \<Rightarrow> BastionHostLinuxProps \<Rightarrow> ('scope, 'props) Stack \<Rightarrow> ref \<times> ('scope, 'props) Stack" where
  "new_BastionHostLinux i p s =
     register i (BastionHostLinuxResource
       \<lparr>bh_vpc = bh_vpc p, instanceName = instanceName p, instanceType = instanceType p,
        securityGroup = securityGroup p, blockDevices = blockDevices p,
        role = \<lparr>managedPolicies = []\<rparr>\<rparr>) s"

text \<open>
  \<open>g.addIngressRule(peer, connection)\<close> adds the rule to the group \<open>g\<close> it is called on,
  once. The receiver's type makes it a security group of the tree; on any other reference
  the model changes nothing.
\<close>

definition addIngressRule :: "ref \<Rightarrow> IPeer \<Rightarrow> Port \<Rightarrow> ('scope, 'props) Stack \<Rightarrow> ('scope, 'props) Stack" where
  "addIngressRule g p c s =
     (case lookup s g of
        None \<Rightarrow> s
      | Some n \<Rightarrow>
          (case resource n of
             SecurityGroupResource sg \<Rightarrow>
               (let r = \<lparr>peer = p, connection = c\<rparr> in
                if r \<in> set (ingressRules sg) then s
                else s\<lparr>children := (children s)
                       [g := n\<lparr>resource := SecurityGroupResource
                                (sg\<lparr>ingressRules := ingressRules sg @ [r]\<rparr>)\<rparr>]\<rparr>)
           | _ \<Rightarrow> s))"

text \<open>\<open>h.role.addManagedPolicy(policy)\<close> on the host \<open>h\<close>: the policy joins the role's list, once.\<close>

definition role_addManagedPolicy :: "ref \<Rightarrow> IManagedPolicy \<Rightarrow> ('scope, 'props) Stack \<Rightarrow> ('scope, 'props) Stack" where
  "role_addManagedPolicy h p s =
     (case lookup s h of
        None \<Rightarrow> s
      | Some n \<Rightarrow>
          (case resource n of
             BastionHostLinuxResource b \<Rightarrow>
               (if p \<in> set (managedPolicies (role b)) then s
                else s\<lparr>children := (children s)
                       [h := n\<lparr>resource := BastionHostLinuxResource
                                (b\<lparr>role := (role b)\<lparr>managedPolicies := managedPolicies (role b) @ [p]\<rparr>\<rparr>)\<rparr>]\<rparr>)
           | _ \<Rightarrow> s))"

section \<open>The stack: \<open>lib/learning-stack.ts\<close>\<close>

text \<open>
  The constructor is a straight sequence of statements. \<open>LearningStack_trace\<close> runs them in
  the order of the source and keeps the tree after each one that touches it:
  \<open>super\<close>, the network, the two security groups, the ingress rule, the bucket, the host,
  the managed policy. \<open>LearningStack\<close> is the tree the constructor leaves.
\<close>

definition LearningStack_trace :: "'scope \<Rightarrow> string \<Rightarrow> 'props option \<Rightarrow> ('scope, 'props) Stack list" where
  "LearningStack_trace sc i p =
     (let s0 = super sc i p;
          (vpc, s1) = new_Vpc ''Vpc''
            \<lparr>ipAddresses = cidr ''10.0.0.0/16'',
             maxAzs = 1,
             subnetConfiguration =
               [\<lparr>cidrMask = 24, subnet_name = ''Public'', subnetType = PUBLIC,
                 mapPublicIpOnLaunch = False\<rparr>]\<rparr> s0;
          (bastionSg, s2) = new_SecurityGroup ''from-bastion''
            \<lparr>securityGroupName = ''from-bastion'', sg_vpc = vpc\<rparr> s1;
          (allowFromBastionSg, s3) = new_SecurityGroup ''allow-from-bastion''
            \<lparr>securityGroupName = ''allow-from-bastion'', sg_vpc = vpc\<rparr> s2;
          s4 = addIngressRule allowFromBastionSg (SecurityGroupPeer bastionSg) (tcp 22) s3;
          hash0 = createHash MD5;
          hash1 = update hash0 ''learning-bucket'';
          (bucket, s5) = new_Bucket ''bucket''
            \<lparr>bucketName = ''learning-bucket-'' @ digest hash1 Hex,
             removalPolicy = DESTROY,
             autoDeleteObjects = True\<rparr> s4;
          (bastion, s6) = new_BastionHostLinux ''bastion''
            \<lparr>bh_vpc = vpc,
             instanceName = ''bastion'',
             instanceType = InstanceType_of C7I XLARGE2,
             securityGroup = bastionSg,
             blockDevices = [\<lparr>deviceName = ''/dev/xvda'', volume = ebs 30\<rparr>]\<rparr> s5;
          s7 = role_addManagedPolicy bastion (fromAwsManagedPolicyName ''AdministratorAccess'') s6
      in [s0, s1, s2, s3, s4, s5, s6, s7])"

definition LearningStack :: "'scope \<Rightarrow> string \<Rightarrow> 'props option \<Rightarrow> ('scope, 'props) Stack" where
  "LearningStack sc i p = last (LearningStack_trace sc i p)"

section \<open>Reading the tree\<close>

text \<open>The constructs of one kind, each with its reference, in the order they registered.\<close>

fun as_Vpc :: "Resource \<Rightarrow> Vpc option" where
  "as_Vpc (VpcResource v) = Some v"
| "as_Vpc _ = None"

fun as_SecurityGroup :: "Resource \<Rightarrow> SecurityGroup option" where
  "as_SecurityGroup (SecurityGroupResource g) = Some g"
| "as_SecurityGroup _ = None"

fun as_Bucket :: "Resource \<Rightarrow> Bucket option" where
  "as_Bucket (BucketResource b) = Some b"
| "as_Bucket _ = None"

fun as_BastionHostLinux :: "Resource \<Rightarrow> BastionHostLinux option" where
  "as_BastionHostLinux (BastionHostLinuxResource h) = Some h"
| "as_BastionHostLinux _ = None"

definition select :: "(Resource \<Rightarrow> 'a option) \<Rightarrow> ('scope, 'props) Stack \<Rightarrow> (ref \<times> 'a) list" where
  "select f s =
     List.map_filter (\<lambda>(r, n). map_option (Pair r) (f (resource n))) (enumerate 0 (children s))"

definition vpcs :: "('scope, 'props) Stack \<Rightarrow> (ref \<times> Vpc) list" where
  "vpcs s = select as_Vpc s"

definition securityGroups :: "('scope, 'props) Stack \<Rightarrow> (ref \<times> SecurityGroup) list" where
  "securityGroups s = select as_SecurityGroup s"

definition securityGroupsNamed :: "string \<Rightarrow> ('scope, 'props) Stack \<Rightarrow> (ref \<times> SecurityGroup) list" where
  "securityGroupsNamed n s = filter (\<lambda>(r, g). securityGroupName g = n) (securityGroups s)"

definition buckets :: "('scope, 'props) Stack \<Rightarrow> (ref \<times> Bucket) list" where
  "buckets s = select as_Bucket s"

definition bastionHosts :: "('scope, 'props) Stack \<Rightarrow> (ref \<times> BastionHostLinux) list" where
  "bastionHosts s = select as_BastionHostLinux s"

text \<open>
  What a security group lets in: traffic from source \<open>src\<close> with protocol \<open>pr\<close> to port
  \<open>n\<close> is permitted when one of the group's ingress rules names that source and protocol
  and its port range holds \<open>n\<close>.
\<close>

definition rule_permits :: "IngressRule \<Rightarrow> IPeer \<Rightarrow> Protocol \<Rightarrow> nat \<Rightarrow> bool" where
  "rule_permits r src pr n =
     (peer r = src \<and> protocol (connection r) = pr \<and>
      fromPort (connection r) \<le> n \<and> n \<le> toPort (connection r))"

definition permits :: "SecurityGroup \<Rightarrow> IPeer \<Rightarrow> Protocol \<Rightarrow> nat \<Rightarrow> bool" where
  "permits g src pr n = list_ex (\<lambda>r. rule_permits r src pr n) (ingressRules g)"

text \<open>
  The dependency edges: a construct depends on every construct its descriptor holds a
  reference to. A security group refers to its network and to the groups its ingress rules
  name; the host refers to its network and its security group.
\<close>

fun peer_refs :: "IPeer \<Rightarrow> ref list" where
  "peer_refs (SecurityGroupPeer g) = [g]"
| "peer_refs (ipv4 a) = []"

fun refs_of :: "Resource \<Rightarrow> ref list" where
  "refs_of (VpcResource v) = []"
| "refs_of (SecurityGroupResource g) = sg_vpc g # concat (map (\<lambda>r. peer_refs (peer r)) (ingressRules g))"
| "refs_of (BucketResource b) = []"
| "refs_of (BastionHostLinuxResource h) = [bh_vpc h, securityGroup h]"

definition dependencies :: "('scope, 'props) Stack \<Rightarrow> (ref \<times> ref) list" where
  "dependencies s =
     concat (map (\<lambda>(r, n). map (Pair r) (refs_of (resource n))) (enumerate 0 (children s)))"

definition resolvable :: "('scope, 'props) Stack \<Rightarrow> bool" where
  "resolvable s = list_all (\<lambda>(a, b). lookup s a \<noteq> None \<and> lookup s b \<noteq> None) (dependencies s)"

section \<open>Evaluation\<close>

text \<open>
  The definitions unfold to closed terms: \<open>ctor_defs\<close> runs the constructor,
  \<open>read_defs\<close> reads the resulting tree.
\<close>

lemmas ctor_defs = LearningStack_def LearningStack_trace_def super_def new_Vpc_def
  new_SecurityGroup_def new_Bucket_def new_BastionHostLinux_def register_def
  addIngressRule_def role_addManagedPolicy_def lookup_def tcp_def createHash_def
  update_def digest_def InstanceType_of_def Let_def

lemmas read_defs = select_def vpcs_def securityGroups_def securityGroupsNamed_def
  buckets_def bastionHosts_def List.map_filter_simps

text \<open>The digest agrees with the test suite of RFC 1321 on the empty input and on \<open>abc\<close>.\<close>

lemma md5_empty: "hex (md5 (utf8 [])) = ''d41d8cd98f00b204e9800998ecf8427e''"
  by code_simp

lemma md5_abc: "hex (md5 (utf8 ''abc'')) = ''900150983cd24fb0d6963f7d28e17f72''"
  by code_simp

lemma md5_learning_bucket:
  "hex (md5 (utf8 ''learning-bucket'')) = ''c518d6b29ae8835e70c5573e0073f8fe''"
  by code_simp

text \<open>Edges that all point from a later reference to an earlier one form no cycle.\<close>

lemma acyclic_backward:
  assumes "\<forall>(a, b) \<in> set es. b < a"
  shows "acyclic (set (es :: (nat \<times> nat) list))"
proof -
  have "set es \<subseteq> less_than\<inverse>"
    using assms by auto
  moreover have "acyclic (less_than\<inverse>)"
    by (simp add: wf_acyclic)
  ultimately show ?thesis
    by (rule acyclic_subset [rotated])
qed

lemma dependencies_LearningStack:
  "dependencies (LearningStack sc i p) = [(1, 0), (2, 0), (2, 1), (4, 0), (4, 1)]"
  by (simp add: ctor_defs dependencies_def)

section \<open>The bucket\<close>

text \<open>
  C1. For every invocation of the constructor, whatever the scope, the id and the
  properties, the tree has one bucket and its name is the label \<open>learning-bucket-\<close>
  followed by the lowercase hexadecimal MD5 digest of the string \<open>learning-bucket\<close>, that
  is \<open>learning-bucket-c518d6b29ae8835e70c5573e0073f8fe\<close>; two invocations, with any
  arguments, give the same name.
\<close>

theorem bucket_name_is_label_and_md5:
  "(\<exists>r b. buckets (LearningStack sc i p) = [(r, b)] \<and>
      bucketName b = ''learning-bucket-'' @ hex (md5 (utf8 ''learning-bucket'')) \<and>
      bucketName b = ''learning-bucket-c518d6b29ae8835e70c5573e0073f8fe'') \<and>
   map (\<lambda>(r, b). bucketName b) (buckets (LearningStack sc i p)) =
   map (\<lambda>(r, b). bucketName b) (buckets (LearningStack sc' i' p'))"
  by (simp add: ctor_defs read_defs md5_learning_bucket)

text \<open>
  C5. The bucket the constructor builds has removal policy \<open>DESTROY\<close> and its
  \<open>autoDeleteObjects\<close> flag is true.
\<close>

theorem bucket_destroy_and_auto_delete:
  "\<exists>r b. buckets (LearningStack sc i p) = [(r, b)] \<and>
     removalPolicy b = DESTROY \<and> autoDeleteObjects b = True"
  by (simp add: ctor_defs read_defs)

section \<open>The security groups\<close>

text \<open>
  C2. After construction there is one security group named \<open>allow-from-bastion\<close>. It has
  exactly one ingress rule; the source of the rule is the reference to the one group named
  \<open>from-bastion\<close>, and its connection is TCP port 22. So the group permits traffic from a
  source, of a protocol, to a port exactly when the source is that group object, the
  protocol is TCP and the port is 22.
\<close>

theorem internal_group_ingress_only_ssh_from_bastion:
  "\<exists>r g b bg.
     securityGroupsNamed ''allow-from-bastion'' (LearningStack sc i p) = [(r, g)] \<and>
     securityGroupsNamed ''from-bastion'' (LearningStack sc i p) = [(b, bg)] \<and>
     ingressRules g = [\<lparr>peer = SecurityGroupPeer b, connection = tcp 22\<rparr>] \<and>
     (\<forall>src pr n. permits g src pr n = (src = SecurityGroupPeer b \<and> pr = TCP \<and> n = 22))"
  by (auto simp add: ctor_defs read_defs permits_def rule_permits_def)

text \<open>
  C3. The group named \<open>from-bastion\<close> does not exist in the first two trees of the trace
  (after \<open>super\<close> and after the network). In every later tree, from the one its creation
  leaves to the one the constructor ends with, there is exactly one such group and it has
  no ingress rule.
\<close>

theorem bastion_group_never_has_ingress:
  "(\<forall>s \<in> set (take 2 (LearningStack_trace sc i p)).
      securityGroupsNamed ''from-bastion'' s = []) \<and>
   (\<forall>s \<in> set (drop 2 (LearningStack_trace sc i p)).
      \<exists>r g. securityGroupsNamed ''from-bastion'' s = [(r, g)] \<and> ingressRules g = [])"
proof -
  have before: "list_all (\<lambda>s. securityGroupsNamed ''from-bastion'' s = [])
      (take 2 (LearningStack_trace sc i p))"
    by (simp add: ctor_defs read_defs)
  have after: "list_all
      (\<lambda>s. \<exists>r g. securityGroupsNamed ''from-bastion'' s = [(r, g)] \<and> ingressRules g = [])
      (drop 2 (LearningStack_trace sc i p))"
    by (simp add: ctor_defs read_defs)
  from before after show ?thesis
    unfolding list_all_iff by (rule conjI)
qed

text \<open>
  The final tree of a stack built with id \<open>LearningStack\<close> and no properties is one of the
  trees after the creation of the group, and the group has no ingress rule there.
\<close>

theorem bastion_group_never_has_ingress_witness:
  "LearningStack () ''LearningStack'' (None :: unit option)
     \<in> set (drop 2 (LearningStack_trace () ''LearningStack'' None)) \<and>
   (\<exists>r g. securityGroupsNamed ''from-bastion''
             (LearningStack () ''LearningStack'' (None :: unit option)) = [(r, g)] \<and>
          ingressRules g = [])"
proof -
  let ?tr = "LearningStack_trace () ''LearningStack'' (None :: unit option)"
  have n: "length ?tr = 8"
    by (simp add: ctor_defs)
  then have "drop 2 ?tr \<noteq> []"
    by simp
  then have "last (drop 2 ?tr) \<in> set (drop 2 ?tr)"
    by (rule last_in_set)
  moreover have "last (drop 2 ?tr) = last ?tr"
    using n by (simp add: last_drop)
  ultimately have m: "LearningStack () ''LearningStack'' (None :: unit option) \<in> set (drop 2 ?tr)"
    by (simp add: LearningStack_def)
  with bastion_group_never_has_ingress [of "()" "''LearningStack''" "None :: unit option"]
  show ?thesis
    by blast
qed

section \<open>The network\<close>

text \<open>
  C6. The tree has one network. Its address range is \<open>10.0.0.0/16\<close>, it spans at most
  one availability zone, and it has exactly one subnet group: public, with a /24 mask,
  named \<open>Public\<close>, and without automatic public addresses.
\<close>

theorem network_descriptor:
  "\<exists>r v. vpcs (LearningStack sc i p) = [(r, v)] \<and>
     ipAddresses v = cidr ''10.0.0.0/16'' \<and> maxAzs v = 1 \<and>
     subnetConfiguration v =
       [\<lparr>cidrMask = 24, subnet_name = ''Public'', subnetType = PUBLIC,
         mapPublicIpOnLaunch = False\<rparr>]"
  by (simp add: ctor_defs read_defs)

section \<open>The bastion host\<close>

text \<open>
  C7. The tree has one bastion host. Its instance name is \<open>bastion\<close>, its network is the
  reference to the stack's one network, its security group is the reference to the one
  group named \<open>from-bastion\<close>, and it declares exactly one block device: a volume of 30
  units on device \<open>/dev/xvda\<close>.
\<close>

theorem bastion_host_descriptor:
  "\<exists>r h v n g bg.
     bastionHosts (LearningStack sc i p) = [(r, h)] \<and>
     instanceName h = ''bastion'' \<and>
     vpcs (LearningStack sc i p) = [(v, n)] \<and> bh_vpc h = v \<and>
     securityGroupsNamed ''from-bastion'' (LearningStack sc i p) = [(g, bg)] \<and>
     securityGroup h = g \<and>
     blockDevices h = [\<lparr>deviceName = ''/dev/xvda'', volume = ebs 30\<rparr>]"
  by (simp add: ctor_defs read_defs)

text \<open>
  C4. After construction the role of the bastion host holds the managed policy named
  \<open>AdministratorAccess\<close>; it is the only managed policy of the role.
\<close>

theorem bastion_role_holds_AdministratorAccess:
  "\<exists>r h. bastionHosts (LearningStack sc i p) = [(r, h)] \<and>
     fromAwsManagedPolicyName ''AdministratorAccess'' \<in> set (managedPolicies (role h)) \<and>
     managedPolicies (role h) = [fromAwsManagedPolicyName ''AdministratorAccess'']"
  by (simp add: ctor_defs read_defs)

text \<open>
  C10. For every invocation the instance type of the bastion host is the constant
  \<open>InstanceType.of(C7I, XLARGE2)\<close>: class \<open>C7I\<close>, size \<open>XLARGE2\<close>, written
  \<open>c7i.2xlarge\<close>.
\<close>

theorem bastion_instance_type_is_c7i_2xlarge:
  "\<exists>r h. bastionHosts (LearningStack sc i p) = [(r, h)] \<and>
     instanceType h = InstanceType_of C7I XLARGE2 \<and>
     instanceClass (instanceType h) = C7I \<and> instanceSize (instanceType h) = XLARGE2 \<and>
     toString (instanceType h) = ''c7i.2xlarge''"
  by (simp add: ctor_defs read_defs toString_def)

section \<open>The whole tree\<close>

text \<open>
  C8. Built with no stack properties, the tree has exactly one network, two security
  groups, one bucket and one bastion host, five children in all. Its dependency edges are
  the two groups and the host to the network, the internal group to the bastion group
  (its ingress rule) and the host to the bastion group; both ends of every edge are
  constructs of the tree, and the edges have no cycle.
\<close>

theorem descriptor_tree_counts_and_acyclic:
  "(let st = LearningStack sc i None in
     length (vpcs st) = 1 \<and> length (securityGroups st) = 2 \<and>
     length (buckets st) = 1 \<and> length (bastionHosts st) = 1 \<and>
     length (children st) = 5 \<and>
     dependencies st = [(1, 0), (2, 0), (2, 1), (4, 0), (4, 1)] \<and>
     resolvable st \<and> acyclic (set (dependencies st)))"
proof -
  let ?st = "LearningStack sc i None"
  note d = dependencies_LearningStack [of sc i None]
  have a: "acyclic (set (dependencies ?st))"
    unfolding d by (rule acyclic_backward) simp
  have r: "resolvable ?st"
    unfolding resolvable_def d by (simp add: ctor_defs)
  have c: "length (vpcs ?st) = 1" "length (securityGroups ?st) = 2"
    "length (buckets ?st) = 1" "length (bastionHosts ?st) = 1" "length (children ?st) = 5"
    by (simp_all add: ctor_defs read_defs)
  show ?thesis
    using d a r c by (simp add: Let_def)
qed

text \<open>
  C9, as stated, fails. "Each resource depends on the resource created immediately before
  it" would make the bucket (reference 3) depend on the internal security group
  (reference 2). The bucket holds no reference at all, so not even a chain of
  dependencies leads from it to the group. Here for the stack built with scope \<open>()\<close>, id
  \<open>LearningStack\<close> and no properties.
\<close>

theorem not_each_depends_on_previous:
  "\<not> (\<forall>k \<in> {1..<5}.
        (k, k - 1) \<in> (set (dependencies (LearningStack () ''LearningStack'' (None :: unit option))))\<^sup>+)"
proof
  assume h: "\<forall>k \<in> {1..<5}.
    (k, k - 1) \<in> (set (dependencies (LearningStack () ''LearningStack'' (None :: unit option))))\<^sup>+"
  note d = dependencies_LearningStack [of "()" "''LearningStack''" "None :: unit option"]
  from h have "(3, 3 - 1) \<in> (set [(1, 0), (2, 0), (2, 1), (4, 0), (4, 1 :: nat)])\<^sup>+"
    unfolding d by (rule bspec) simp
  then show False
    by (cases rule: converse_tranclE) auto
qed

text \<open>
  C9, amended. The constructor registers the five resources in the order network, bastion
  security group, internal security group, bucket, bastion host (references 0 to 4). The
  dependencies are: the bastion group on the network; the internal group on the network and
  on the bastion group; the host on the network and on the bastion group; the bucket on
  nothing. Every dependency is on a resource created earlier.
\<close>

theorem creation_order_and_dependencies:
  "map node_id (children (LearningStack sc i p)) =
     [''Vpc'', ''from-bastion'', ''allow-from-bastion'', ''bucket'', ''bastion''] \<and>
   map fst (vpcs (LearningStack sc i p)) = [0] \<and>
   map fst (securityGroupsNamed ''from-bastion'' (LearningStack sc i p)) = [1] \<and>
   map fst (securityGroupsNamed ''allow-from-bastion'' (LearningStack sc i p)) = [2] \<and>
   map fst (buckets (LearningStack sc i p)) = [3] \<and>
   map fst (bastionHosts (LearningStack sc i p)) = [4] \<and>
   dependencies (LearningStack sc i p) = [(1, 0), (2, 0), (2, 1), (4, 0), (4, 1)] \<and>
   list_all (\<lambda>(a, b). b < a) (dependencies (LearningStack sc i p))"
  by (simp add: ctor_defs read_defs dependencies_def)

end
